theory Spec2Isabelle
  imports Main
begin

section \<open>Strings and values of the host language\<close>

text \<open>
  The engine is JavaScript. Strings are modelled as byte lists; the string methods
  the engine calls (\<^verbatim>\<open>endsWith\<close>, \<^verbatim>\<open>includes\<close>, \<^verbatim>\<open>split\<close>,
  \<^verbatim>\<open>join\<close>, \<^verbatim>\<open>toLowerCase\<close> on ASCII) are written out.
\<close>

definition endsWith :: "string \<Rightarrow> string \<Rightarrow> bool" where
  "endsWith s suffix =
     (length suffix \<le> length s \<and> drop (length s - length suffix) s = suffix)"

fun str_includes :: "string \<Rightarrow> string \<Rightarrow> bool" where
  "str_includes [] needle = (needle = [])"
| "str_includes (c # cs) needle =
     (take (length needle) (c # cs) = needle \<or> str_includes cs needle)"

definition lower_char :: "char \<Rightarrow> char" where
  "lower_char c =
     (let n = (of_char c :: nat) in if 65 \<le> n \<and> n \<le> 90 then char_of (n + 32) else c)"

definition toLowerCase :: "string \<Rightarrow> string" where
  "toLowerCase s = map lower_char s"

fun split :: "char \<Rightarrow> string \<Rightarrow> string list" where
  "split sep [] = [[]]"
| "split sep (c # cs) =
     (if c = sep then [] # split sep cs
      else (case split sep cs of [] \<Rightarrow> [[c]] | l # ls \<Rightarrow> (c # l) # ls))"

fun join :: "string \<Rightarrow> string list \<Rightarrow> string" where
  "join sep [] = []"
| "join sep [l] = l"
| "join sep (l # ls) = l @ sep @ join sep ls"

text \<open>
  Values that reach a template: \<^verbatim>\<open>undefined\<close>, strings, integers, references to
  objects held in a store (objects are shared by reference: the export bag is one), and
  opaque function values. Objects are maps of their own properties.
\<close>

datatype jsval = Undefined | Str string | Num int | Ref nat | Fn string

type_synonym obj = "string \<rightharpoonup> jsval"
type_synonym store = "nat \<Rightarrow> obj"

definition digit_char :: "nat \<Rightarrow> char" where
  "digit_char d = char_of (48 + d)"

function show_nat :: "nat \<Rightarrow> string" where
  "show_nat n = (if n < 10 then [digit_char n] else show_nat (n div 10) @ [digit_char (n mod 10)])"
  by pat_completeness auto
termination
  by (relation "measure id") auto

definition show_int :: "int \<Rightarrow> string" where
  "show_int i = (if i < 0 then ''-'' @ show_nat (nat (- i)) else show_nat (nat i))"

text \<open>
  \<^verbatim>\<open>ToString\<close>, as a template literal and \<^verbatim>\<open>endsWith\<close> apply it. A function prints
  as its source text, which is abbreviated to its name here.
\<close>

fun to_string :: "jsval \<Rightarrow> string" where
  "to_string Undefined = ''undefined''"
| "to_string (Str s) = s"
| "to_string (Num i) = show_int i"
| "to_string (Ref r) = ''[object Object]''"
| "to_string (Fn f) = ''function '' @ f"

text \<open>
  Property read \<^verbatim>\<open>v[k]\<close> on a value that is not \<^verbatim>\<open>undefined\<close>. Only objects have
  properties in the model.
\<close>

fun get_prop :: "store \<Rightarrow> jsval \<Rightarrow> string \<Rightarrow> jsval" where
  "get_prop st (Ref r) k = (case st r k of None \<Rightarrow> Undefined | Some v \<Rightarrow> v)"
| "get_prop st v k = Undefined"

section \<open>Paths\<close>

text \<open>
  POSIX \<^verbatim>\<open>path.resolve(views, file)\<close> of Node: arguments are taken from the right
  until an absolute one is met (an empty one is skipped, one that is not a string is a
  \<^verbatim>\<open>TypeError\<close>, here \<open>None\<close>), the working directory is used when none is absolute,
  and the result is normalised: empty and \<^verbatim>\<open>.\<close> segments are dropped, \<^verbatim>\<open>..\<close> removes
  the segment before it.
\<close>

definition is_absolute :: "string \<Rightarrow> bool" where
  "is_absolute p = (case p of [] \<Rightarrow> False | c # _ \<Rightarrow> c = CHR ''/'')"

fun normalize_segments :: "string list \<Rightarrow> string list \<Rightarrow> string list" where
  "normalize_segments acc [] = rev acc"
| "normalize_segments acc (seg # rest) =
     (if seg = [] \<or> seg = ''.'' then normalize_segments acc rest
      else if seg = ''..'' then normalize_segments (tl acc) rest
      else normalize_segments (seg # acc) rest)"

definition normalize_absolute :: "string \<Rightarrow> string" where
  "normalize_absolute p = ''/'' @ join ''/'' (normalize_segments [] (split CHR ''/'' p))"

definition path_resolve :: "string \<Rightarrow> jsval \<Rightarrow> string \<Rightarrow> string option" where
  "path_resolve cwd views file =
     (let p1 = (if file = [] then [] else file @ ''/'') in
      if is_absolute file then Some (normalize_absolute p1)
      else (case views of
              Str v \<Rightarrow>
                (let p2 = (if v = [] then p1 else v @ ''/'' @ p1) in
                 if is_absolute v then Some (normalize_absolute p2)
                 else Some (normalize_absolute (cwd @ ''/'' @ p2)))
            | _ \<Rightarrow> None))"

text \<open>\<^verbatim>\<open>path.dirname\<close> and \<^verbatim>\<open>path.basename(p, suffix)\<close> on a resolved path.\<close>

definition path_dirname :: "string \<Rightarrow> string" where
  "path_dirname p =
     (case butlast (normalize_segments [] (split CHR ''/'' p)) of
        [] \<Rightarrow> ''/''
      | segs \<Rightarrow> ''/'' @ join ''/'' segs)"

definition path_basename :: "string \<Rightarrow> string \<Rightarrow> string" where
  "path_basename p suffix =
     (case rev (filter (\<lambda>seg. seg \<noteq> []) (split CHR ''/'' p)) of
        [] \<Rightarrow> []
      | base # _ \<Rightarrow>
          if suffix \<noteq> [] \<and> endsWith base suffix \<and> base \<noteq> suffix
          then take (length base - length suffix) base
          else base)"

section \<open>Errors and the error normalizer\<close>

text \<open>
  An error object: its \<^verbatim>\<open>name\<close>, \<^verbatim>\<open>message\<close> and \<^verbatim>\<open>stack\<close>, the trace as one
  string of lines. \<open>kind\<close> is the class of section 7 of the specification the error
  falls in; the program has no such field, the model keeps it to tell the timer's
  rejection from the others. Every value thrown is an error object with a trace.
\<close>

datatype error_kind = IOError | CompileError | RuntimeError | TimeoutError

record js_error =
  kind :: error_kind
  name :: string
  message :: string
  stack :: string

text \<open>Where an error is created; the frames the runtime records there are its business.\<close>

datatype site = AtResolve | AtStat | AtRead | AtCompile | AtLogger | AtCache | AtTimer | AtTemplate

definition newline :: char where
  "newline = CHR 0x0A"

definition engine_basename :: string where
  "engine_basename = ''template-engine.js''"

text \<open>The predicate of lines 93-95: the line names the engine's file or the dispatcher.\<close>

definition internal_frame :: "string \<Rightarrow> bool" where
  "internal_frame line =
     (str_includes (toLowerCase line) engine_basename
      \<or> str_includes line ''Script.runInContext''
      \<or> str_includes line ''Script.runInNewContext'')"

text \<open>\<^verbatim>\<open>lines.filter((line, index) => index === 0 || ...)\<close>.\<close>

definition filter_stack :: "string list \<Rightarrow> string list" where
  "filter_stack ls =
     map snd (filter (\<lambda>(index, line). index = 0 \<or> \<not> internal_frame line)
                     (zip [0 ..< length ls] ls))"

definition normalize_error :: "js_error \<Rightarrow> js_error" where
  "normalize_error err =
     err\<lparr>stack := join [newline] (filter_stack (split newline (stack err)))\<rparr>"

section \<open>Engine configuration\<close>

text \<open>
  The parameters of \<^verbatim>\<open>module.exports\<close>, each optional, and the engine they configure.
  A logger is a callback: it returns a value or throws an error with a message.
  \<open>frames\<close> stands for the runtime's stack capture, \<open>cwd\<close> for the process's working
  directory and \<open>main_dir\<close> for the directory of the main module, the default of
  \<^verbatim>\<open>views\<close>. The eager \<^verbatim>\<open>preload\<close> only calls \<^verbatim>\<open>load_template\<close> for each name and is
  left out.
\<close>

record params =
  p_logger :: "(jsval \<Rightarrow> string + jsval) option"
  p_extension :: "string option"
  p_views :: "string option"
  p_inject :: "obj option"
  p_timeout :: "nat option"

record env =
  logger :: "jsval \<Rightarrow> string + jsval"
  extension :: string
  views :: string
  always_inject :: obj
  timeout :: nat
  cwd :: string
  frames :: "site \<Rightarrow> string list"

definition engine :: "string \<Rightarrow> string \<Rightarrow> (site \<Rightarrow> string list) \<Rightarrow> params \<Rightarrow> env" where
  "engine main_dir working_dir capture ps =
     \<lparr> logger = (case p_logger ps of None \<Rightarrow> (\<lambda>_. Inr Undefined) | Some l \<Rightarrow> l),
       extension = (case p_extension ps of None \<Rightarrow> ''template'' | Some x \<Rightarrow> x),
       views = (case p_views ps of None \<Rightarrow> main_dir | Some v \<Rightarrow> v),
       always_inject = (case p_inject ps of None \<Rightarrow> Map.empty | Some i \<Rightarrow> i),
       timeout = (case p_timeout ps of None \<Rightarrow> 10000 | Some t \<Rightarrow> t),
       cwd = working_dir,
       frames = capture \<rparr>"

definition mk_error :: "env \<Rightarrow> site \<Rightarrow> error_kind \<Rightarrow> string \<Rightarrow> string \<Rightarrow> js_error" where
  "mk_error e at knd nm msg =
     \<lparr> kind = knd, name = nm, message = msg,
       stack = join [newline] ((nm @ '': '' @ msg) # frames e at) \<rparr>"

section \<open>Resolving a template name\<close>

text \<open>
  Lines 52-53 of \<^verbatim>\<open>include\<close>: the extension and the directory come from
  \<^verbatim>\<open>options.settings\<close> when that is defined, from the engine otherwise; the extension
  is appended unless the name already ends with it.
\<close>

definition settings_of :: "env \<Rightarrow> store \<Rightarrow> obj \<Rightarrow> jsval \<times> jsval" where
  "settings_of e st options =
     (case options ''settings'' of
        None \<Rightarrow> (Str (extension e), Str (views e))
      | Some Undefined \<Rightarrow> (Str (extension e), Str (views e))
      | Some v \<Rightarrow> (get_prop st v ''view engine'', get_prop st v ''views''))"

definition template_file :: "string \<Rightarrow> string \<Rightarrow> string" where
  "template_file ext filename =
     (if endsWith filename ext then filename else filename @ ''.'' @ ext)"

definition filepath_of :: "env \<Rightarrow> store \<Rightarrow> obj \<Rightarrow> string \<Rightarrow> string option" where
  "filepath_of e st options filename =
     (case settings_of e st options of
        (ext, dir) \<Rightarrow> path_resolve (cwd e) dir (template_file (to_string ext) filename))"


section \<open>Templates\<close>

text \<open>
  A template file is the body of a template literal: text and \<^verbatim>\<open>${...}\<close> fragments.
  The fragments modelled are the uses of the names the engine exposes, written as the
  README writes them: a variable, \<^verbatim>\<open>get(k)\<close>, \<^verbatim>\<open>set(k, x)\<close>,
  \<^verbatim>\<open>export_var(k, x)\<close>, \<^verbatim>\<open>log(x)\<close>, a property read \<^verbatim>\<open>x[k]\<close>,
  \<^verbatim>\<open>await import_vars(name)\<close>,
  \<^verbatim>\<open>await include(name, {k: a, ...})\<close>, an immediately thrown \<^verbatim>\<open>Error\<close>, and
  the wait for a promise that never settles. A file whose text is not a well-formed
  template body is \<open>Malformed\<close>.
\<close>

datatype atom = Lit jsval | Var string | Call_get string

datatype expr =
    Atom atom
  | Member expr string
  | Call_set string expr
  | Call_export_var string expr
  | Call_log expr
  | Call_import_vars string
  | Call_include string "(string \<times> atom) list"
  | Throw string
  | Never

datatype fragment = Text string | Subst expr

datatype source = Malformed | Template "fragment list"

section \<open>File system, file cache and engine state\<close>

text \<open>
  A file has a modification time (milliseconds, as \<^verbatim>\<open>mtime.valueOf()\<close> gives it) and
  contents, \<open>None\<close> when it cannot be read (a directory, a missing permission).
  A cache entry is \<^verbatim>\<open>{mtime, script}\<close>; the script keeps the options
  \<^verbatim>\<open>vm.Script\<close> was given.
\<close>

record fs_file =
  f_mtime :: int
  f_data :: "source option"

record script =
  body :: "fragment list"
  filename :: string
  lineOffset :: int

record cache_entry =
  mtime :: int
  script :: script

text \<open>What the engine does to the outside and to shared objects, in order.\<close>

datatype event =
    Lock string | Unlock string | Stat string | ReadFile string | Compile string
  | LogMsg jsval | Alloc nat | Export nat string jsval

record state =
  fs :: "string \<rightharpoonup> fs_file"
  file_cache :: "string \<rightharpoonup> cache_entry"
  held :: "string set"
  objects :: store
  next_ref :: nat
  context_index :: nat
  trace :: "event list"

definition emit :: "event \<Rightarrow> state \<Rightarrow> state" where
  "emit ev s = s\<lparr>trace := trace s @ [ev]\<rparr>"

section \<open>load\_template\<close>

text \<open>
  The \<^verbatim>\<open>try\<close> block of \<^verbatim>\<open>load_template\<close> (lines 20-37). The entry is deleted
  after the read and before the compilation; the new entry is stored only when
  \<^verbatim>\<open>new vm.Script\<close> returns.
\<close>

definition call_logger :: "env \<Rightarrow> jsval \<Rightarrow> state \<Rightarrow> (js_error + jsval) \<times> state" where
  "call_logger e v s =
     (case logger e v of
        Inl msg \<Rightarrow> (Inl (mk_error e AtLogger RuntimeError ''Error'' msg), emit (LogMsg v) s)
      | Inr r \<Rightarrow> (Inr r, emit (LogMsg v) s))"

definition stale :: "state \<Rightarrow> string \<Rightarrow> fs_file \<Rightarrow> bool" where
  "stale s filepath f =
     (case file_cache s filepath of
        None \<Rightarrow> True
      | Some c \<Rightarrow> f_mtime f \<noteq> mtime c)"

definition load_body :: "env \<Rightarrow> string \<Rightarrow> state \<Rightarrow> (js_error + unit) \<times> state" where
  "load_body e filepath s0 =
     (let s1 = emit (Stat filepath) s0 in
      case fs s1 filepath of
        None \<Rightarrow>
          (Inl (mk_error e AtStat IOError ''Error''
                  (''ENOENT: no such file or directory, stat '' @ filepath)), s1)
      | Some f \<Rightarrow>
          (let new_template = (file_cache s1 filepath = None) in
           if stale s1 filepath f then
             (let s2 = emit (ReadFile filepath) s1 in
              case f_data f of
                None \<Rightarrow>
                  (Inl (mk_error e AtRead IOError ''Error''
                          (''cannot read '' @ filepath)), s2)
              | Some content \<Rightarrow>
                  (let s3 = emit (Compile filepath)
                              (s2\<lparr>file_cache := (file_cache s2)(filepath := None)\<rparr>) in
                   case content of
                     Malformed \<Rightarrow>
                       (Inl (mk_error e AtCompile CompileError ''SyntaxError''
                               (''invalid template '' @ filepath)), s3)
                   | Template frags \<Rightarrow>
                       (let s4 = s3\<lparr>file_cache := (file_cache s3)(filepath \<mapsto>
                                   \<lparr> mtime = f_mtime f,
                                     script = \<lparr> body = frags, filename = filepath,
                                                  lineOffset = - 2 \<rparr> \<rparr>)\<rparr> in
                        case call_logger e
                               (Str ((if new_template then ''Loaded'' else ''Reloaded'')
                                     @ '' template '' @ filepath)) s4 of
                          (Inl err, s5) \<Rightarrow> (Inl err, s5)
                        | (Inr _, s5) \<Rightarrow> (Inr (), s5))))
           else (Inr (), s1)))"

text \<open>
  The lock around it (lines 18, 38-40). \<^verbatim>\<open>lock()\<close> settles when no one holds the
  path's mutex; while it is held the call does not return, which is \<open>None\<close>.
  \<^verbatim>\<open>finally\<close> releases it however the block ended.
\<close>

definition load_template :: "env \<Rightarrow> string \<Rightarrow> state \<Rightarrow> ((js_error + unit) \<times> state) option" where
  "load_template e filepath s =
     (if filepath \<in> held s then None
      else
        (case load_body e filepath (emit (Lock filepath) (s\<lparr>held := insert filepath (held s)\<rparr>)) of
           (r, s') \<Rightarrow> Some (r, emit (Unlock filepath) (s'\<lparr>held := held s' - {filepath}\<rparr>))))"

section \<open>The execution context\<close>

text \<open>
  The object literal of lines 55-73. A name is bound to a value or to one of the
  closures this call of \<^verbatim>\<open>include\<close> creates. The spreads come first, so the keys
  written after them win.
\<close>

datatype binding =
    Val jsval
  | Helper_include | Helper_set | Helper_get | Helper_import_vars | Helper_log

definition build_context :: "env \<Rightarrow> obj \<Rightarrow> string \<Rightarrow> jsval \<Rightarrow> string \<rightharpoonup> binding" where
  "build_context e options filepath ext =
     (map_option Val \<circ> (always_inject e ++ options))
       (''include'' \<mapsto> Helper_include,
        ''set'' \<mapsto> Helper_set,
        ''get'' \<mapsto> Helper_get,
        ''import_vars'' \<mapsto> Helper_import_vars,
        ''log'' \<mapsto> Helper_log,
        ''__template'' \<mapsto> Val (Str (path_basename filepath (''.'' @ to_string ext))),
        ''__filename'' \<mapsto> Val (Str filepath),
        ''__dirname'' \<mapsto> Val (Str (path_dirname filepath)))"

text \<open>What one call of \<^verbatim>\<open>include\<close> closes over: its context and its options.\<close>

record call =
  bindings :: "string \<rightharpoonup> binding"
  options_of :: obj

section \<open>Evaluating a template\<close>

text \<open>
  An evaluation returns a value, throws, or is still waiting when the timer fires
  (\<open>Pending\<close>). It threads the call's \<^verbatim>\<open>locals\<close> and the engine state.
  \<^verbatim>\<open>export_var\<close> is the script's own constant (line 28): it reads \<^verbatim>\<open>__exports\<close> from the
  context when it is called, and an assignment to a property of a string or a number
  does nothing. The other calls are those of the context's bindings, which are the
  engine's.
\<close>

datatype 'a completion = Value 'a | Throws js_error | Pending

type_synonym renderer = "string \<Rightarrow> obj \<Rightarrow> state \<Rightarrow> ((js_error + string) \<times> state) option"

fun eval_atom :: "env \<Rightarrow> (string \<rightharpoonup> binding) \<Rightarrow> obj \<Rightarrow> atom \<Rightarrow> js_error + jsval" where
  "eval_atom e ctx locals (Lit v) = Inr v"
| "eval_atom e ctx locals (Var x) =
     (if x = ''export_var'' then Inr (Fn x)
      else (case ctx x of
              None \<Rightarrow> Inl (mk_error e AtTemplate RuntimeError ''ReferenceError''
                             (x @ '' is not defined''))
            | Some (Val v) \<Rightarrow> Inr v
            | Some _ \<Rightarrow> Inr (Fn x)))"
| "eval_atom e ctx locals (Call_get k) =
     Inr (case locals k of None \<Rightarrow> Undefined | Some v \<Rightarrow> v)"

fun eval_overrides ::
  "env \<Rightarrow> (string \<rightharpoonup> binding) \<Rightarrow> obj \<Rightarrow> (string \<times> atom) list \<Rightarrow> js_error + obj" where
  "eval_overrides e ctx locals [] = Inr Map.empty"
| "eval_overrides e ctx locals ((k, a) # rest) =
     (case eval_atom e ctx locals a of
        Inl err \<Rightarrow> Inl err
      | Inr v \<Rightarrow>
          (case eval_overrides e ctx locals rest of
             Inl err \<Rightarrow> Inl err
           | Inr m \<Rightarrow> Inr ([k \<mapsto> v] ++ m)))"

text \<open>
  The awaited result of a nested render. A child that is rejected by its own timer is
  rejected after the timer of the render awaiting it, which was started earlier with the
  same delay: that render is still waiting when its own timer fires.
\<close>

definition awaited ::
  "((js_error + 'a) \<times> state) option \<Rightarrow> ('a \<Rightarrow> jsval) \<Rightarrow> obj \<Rightarrow> (jsval completion \<times> obj \<times> state) option" where
  "awaited res val locals =
     (case res of
        None \<Rightarrow> None
      | Some (Inl err, s) \<Rightarrow>
          Some (if kind err = TimeoutError then Pending else Throws err, locals, s)
      | Some (Inr x, s) \<Rightarrow> Some (Value (val x), locals, s))"

fun eval ::
  "env \<Rightarrow> renderer \<Rightarrow> call \<Rightarrow> expr \<Rightarrow> obj \<Rightarrow> state \<Rightarrow> (jsval completion \<times> obj \<times> state) option" where
  "eval e inc c (Atom a) locals s =
     Some (case eval_atom e (bindings c) locals a of Inl err \<Rightarrow> Throws err | Inr v \<Rightarrow> Value v,
           locals, s)"
| "eval e inc c (Member x k) locals s =
     (case eval e inc c x locals s of
        Some (Value v, locals', s') \<Rightarrow>
          (if v = Undefined
           then Some (Throws (mk_error e AtTemplate RuntimeError ''TypeError''
                               (''Cannot read properties of undefined (reading '' @ k @ '')'')),
                      locals', s')
           else Some (Value (get_prop (objects s') v k), locals', s'))
      | other \<Rightarrow> other)"
| "eval e inc c (Call_set k x) locals s =
     (case eval e inc c x locals s of
        Some (Value v, locals', s') \<Rightarrow> Some (Value (Str []), locals'(k \<mapsto> v), s')
      | other \<Rightarrow> other)"
| "eval e inc c (Call_export_var k x) locals s =
     (case eval e inc c x locals s of
        Some (Value v, locals', s') \<Rightarrow>
          (case bindings c ''__exports'' of
             None \<Rightarrow>
               Some (Throws (mk_error e AtTemplate RuntimeError ''ReferenceError''
                               ''__exports is not defined''), locals', s')
           | Some (Val Undefined) \<Rightarrow>
               Some (Throws (mk_error e AtTemplate RuntimeError ''TypeError''
                               (''Cannot set properties of undefined (setting '' @ k @ '')'')),
                     locals', s')
           | Some (Val (Ref r)) \<Rightarrow>
               Some (Value (Str []), locals',
                     emit (Export r k v) (s'\<lparr>objects := (objects s')(r := (objects s' r)(k \<mapsto> v))\<rparr>))
           | Some _ \<Rightarrow> Some (Value (Str []), locals', s'))
      | other \<Rightarrow> other)"
| "eval e inc c (Call_log x) locals s =
     (case eval e inc c x locals s of
        Some (Value v, locals', s') \<Rightarrow>
          (case call_logger e v s' of
             (Inl err, s'') \<Rightarrow> Some (Throws err, locals', s'')
           | (Inr r, s'') \<Rightarrow> Some (Value r, locals', s''))
      | other \<Rightarrow> other)"
| "eval e inc c (Call_import_vars template) locals s =
     (let r = next_ref s;
          s1 = emit (Alloc r) (s\<lparr>objects := (objects s)(r := Map.empty), next_ref := Suc r\<rparr>)
      in awaited (inc template ((options_of c)(''__exports'' \<mapsto> Ref r)) s1) (\<lambda>_. Ref r) locals)"
| "eval e inc c (Call_include include_filename include_options) locals s =
     (case eval_overrides e (bindings c) locals include_options of
        Inl err \<Rightarrow> Some (Throws err, locals, s)
      | Inr m \<Rightarrow> awaited (inc include_filename (options_of c ++ m) s) Str locals)"
| "eval e inc c (Throw msg) locals s =
     Some (Throws (mk_error e AtTemplate RuntimeError ''Error'' msg), locals, s)"
| "eval e inc c Never locals s = Some (Pending, locals, s)"

text \<open>The template literal: fragments left to right, each value converted to a string.\<close>

fun run_body ::
  "env \<Rightarrow> renderer \<Rightarrow> call \<Rightarrow> fragment list \<Rightarrow> obj \<Rightarrow> state \<Rightarrow> (string completion \<times> obj \<times> state) option" where
  "run_body e inc c [] locals s = Some (Value [], locals, s)"
| "run_body e inc c (Text t # rest) locals s =
     (case run_body e inc c rest locals s of
        Some (Value out, locals', s') \<Rightarrow> Some (Value (t @ out), locals', s')
      | other \<Rightarrow> other)"
| "run_body e inc c (Subst x # rest) locals s =
     (case eval e inc c x locals s of
        None \<Rightarrow> None
      | Some (Value v, locals', s') \<Rightarrow>
          (case run_body e inc c rest locals' s' of
             Some (Value out, locals'', s'') \<Rightarrow> Some (Value (to_string v @ out), locals'', s'')
           | other \<Rightarrow> other)
      | Some (Throws err, locals', s') \<Rightarrow> Some (Throws err, locals', s')
      | Some (Pending, locals', s') \<Rightarrow> Some (Pending, locals', s'))"

section \<open>include\<close>

text \<open>
  The wrapper of lines 28-31 puts the file's text between a line break with the
  wrapper's indentation and another one.
\<close>

definition wrapper_margin :: string where
  "wrapper_margin = newline # replicate 24 CHR '' ''"

text \<open>
  The \<^verbatim>\<open>try\<close> block of \<^verbatim>\<open>include\<close> (lines 52-89), without a callback: the promise
  form. \<open>inc\<close> is \<^verbatim>\<open>include\<close> itself, for the nested calls. The race of lines 75-85
  is decided by what the evaluation did: while it is pending the timer rejects.
\<close>

definition render :: "env \<Rightarrow> renderer \<Rightarrow> string \<Rightarrow> obj \<Rightarrow> state \<Rightarrow> ((js_error + string) \<times> state) option" where
  "render e inc fname options s =
     (case settings_of e (objects s) options of
        (ext, dir) \<Rightarrow>
          (case filepath_of e (objects s) options fname of
             None \<Rightarrow>
               Some (Inl (mk_error e AtResolve RuntimeError ''TypeError''
                            ''The paths[0] argument must be of type string''), s)
           | Some filepath \<Rightarrow>
               (let c = \<lparr> bindings = build_context e options filepath ext, options_of = options \<rparr> in
                case load_template e filepath s of
                  None \<Rightarrow> None
                | Some (Inl err, s1) \<Rightarrow> Some (Inl err, s1)
                | Some (Inr _, s1) \<Rightarrow>
                    (case file_cache s1 filepath of
                       None \<Rightarrow>
                         Some (Inl (mk_error e AtCache RuntimeError ''TypeError''
                                      ''Cannot read properties of undefined (reading script)''), s1)
                     | Some entry \<Rightarrow>
                         (case run_body e inc c (body (script entry)) Map.empty
                                 (s1\<lparr>context_index := Suc (context_index s1)\<rparr>) of
                            None \<Rightarrow> None
                          | Some (Value out, _, s2) \<Rightarrow>
                              Some (Inr (wrapper_margin @ out @ wrapper_margin), s2)
                          | Some (Throws err, _, s2) \<Rightarrow> Some (Inl err, s2)
                          | Some (Pending, _, s2) \<Rightarrow>
                              Some (Inl (mk_error e AtTimer TimeoutError ''Error''
                                           (''Rendering '' @ filepath @ '' timed out'')), s2))))))"

text \<open>
  \<^verbatim>\<open>include\<close> with its \<^verbatim>\<open>catch\<close> (lines 90-101): every error leaves through the
  normalizer. The first argument bounds the depth of nested renders; \<open>None\<close> is a
  render that has not returned within it.
\<close>

primrec include_template :: "nat \<Rightarrow> env \<Rightarrow> renderer" where
  "include_template 0 e = (\<lambda>fname options s. None)"
| "include_template (Suc n) e =
     (\<lambda>fname options s.
        case render e (include_template n e) fname options s of
          None \<Rightarrow> None
        | Some (Inl err, s') \<Rightarrow> Some (Inl (normalize_error err), s')
        | Some (Inr out, s') \<Rightarrow> Some (Inr out, s'))"

section \<open>Observations on a run\<close>

text \<open>The names the context literal writes after the spreads.\<close>

definition engine_names :: "string set" where
  "engine_names =
     {''include'', ''set'', ''get'', ''import_vars'', ''log'',
      ''__template'', ''__filename'', ''__dirname''}"

text \<open>How often the compiler was called for a path, read off the trace.\<close>

definition compile_count :: "string \<Rightarrow> event list \<Rightarrow> nat" where
  "compile_count filepath evs = length (filter (\<lambda>ev. ev = Compile filepath) evs)"

text \<open>The events a run from \<open>s\<close> to \<open>s'\<close> added.\<close>

definition new_events :: "state \<Rightarrow> state \<Rightarrow> event list" where
  "new_events s s' = drop (length (trace s)) (trace s')"





text \<open>Two renders of one template, one after the other, and the compilations they made.\<close>

definition render_twice :: "nat \<Rightarrow> env \<Rightarrow> string \<Rightarrow> obj \<Rightarrow> state \<Rightarrow> state option" where
  "render_twice n e fname options s =
     (case include_template n e fname options s of
        None \<Rightarrow> None
      | Some (_, s1) \<Rightarrow> map_option snd (include_template n e fname options s1))"


section \<open>A sample installation\<close>

text \<open>
  An engine with the default extension, logger and timeout, its views under
  \<^verbatim>\<open>/srv/views\<close>, and a few template files, for the concrete runs below. The frames are
  what the runtime could record at each place.
\<close>

definition demo_frames :: "site \<Rightarrow> string list" where
  "demo_frames at =
     (case at of
        AtTemplate \<Rightarrow> [''    at /srv/views/error.template:3:11'',
                        ''    at include (/srv/engine/template-engine.js:84:20)'',
                        ''    at new Promise (<anonymous>)'']
      | AtTimer \<Rightarrow> [''    at Timeout._onTimeout (/srv/engine/template-engine.js:76:33)'',
                     ''    at listOnTimeout (node:internal/timers:581:17)'']
      | _ \<Rightarrow> [''    at async load_template (/srv/engine/template-engine.js:20:29)''])"

definition demo_env :: env where
  "demo_env = engine ''/srv/app'' ''/srv/app'' demo_frames
     \<lparr> p_logger = None, p_extension = None, p_views = Some ''/srv/views'',
       p_inject = None, p_timeout = None \<rparr>"

definition demo_files :: "(string \<times> fs_file) list" where
  "demo_files =
     [(''/srv/views/strings.template'',
         \<lparr> f_mtime = 5,
           f_data = Some (Template [Text ''x'',
                      Subst (Call_export_var ''k'' (Atom (Lit (Num 7))))]) \<rparr>),
      (''/srv/views/hello.template'',
         \<lparr> f_mtime = 5,
           f_data = Some (Template [Subst (Call_set ''s'' (Call_import_vars ''strings'')),
                      Subst (Member (Atom (Call_get ''s'')) ''k'')]) \<rparr>),
      (''/srv/views/bad.template'', \<lparr> f_mtime = 5, f_data = Some Malformed \<rparr>),
      (''/srv/views/hang.template'',
         \<lparr> f_mtime = 5, f_data = Some (Template [Text ''partial'', Subst Never]) \<rparr>),
      (''/srv/views/error.template'',
         \<lparr> f_mtime = 5,
           f_data = Some (Template [Text ''Lets throw an error!'', Subst (Throw ''whoops'')]) \<rparr>),
      (''/srv/views/parent.template'',
         \<lparr> f_mtime = 5,
           f_data = Some (Template [Subst (Call_include ''child'' [(''x'', Lit (Num 1))])]) \<rparr>),
      (''/srv/views/child.template'',
         \<lparr> f_mtime = 5,
           f_data = Some (Template [Subst (Atom (Var ''x'')), Text '','',
                      Subst (Atom (Var ''y''))]) \<rparr>)]"

definition demo_state :: state where
  "demo_state =
     \<lparr> fs = map_of demo_files, file_cache = Map.empty, held = {},
       objects = (\<lambda>_. Map.empty), next_ref = 0, context_index = 0, trace = [] \<rparr>"

definition parent_options :: obj where
  "parent_options = [''x'' \<mapsto> Num 0, ''y'' \<mapsto> Num 2]"

definition parent_call :: call where
  "parent_call =
     \<lparr> bindings = build_context demo_env parent_options ''/srv/views/parent.template''
                    (Str ''template''),
       options_of = parent_options \<rparr>"

section \<open>Splitting, joining and resolving\<close>










section \<open>Name resolution\<close>




section \<open>The helpers cannot be replaced\<close>

text \<open>
  Claim C10. Whatever the injected globals and the caller's options bind, the context
  binds \<^verbatim>\<open>include\<close>, \<^verbatim>\<open>set\<close>, \<^verbatim>\<open>get\<close>, \<^verbatim>\<open>import_vars\<close> and \<^verbatim>\<open>log\<close> to the
  engine's own closures and \<^verbatim>\<open>__template\<close>, \<^verbatim>\<open>__filename\<close> and \<^verbatim>\<open>__dirname\<close> to the
  resolved path's parts: these keys are written after the two spreads.
\<close>

theorem engine_bindings_shadow:
  "build_context e options filepath ext ''include'' = Some Helper_include
   \<and> build_context e options filepath ext ''set'' = Some Helper_set
   \<and> build_context e options filepath ext ''get'' = Some Helper_get
   \<and> build_context e options filepath ext ''import_vars'' = Some Helper_import_vars
   \<and> build_context e options filepath ext ''log'' = Some Helper_log
   \<and> build_context e options filepath ext ''__template'' =
       Some (Val (Str (path_basename filepath (''.'' @ to_string ext))))
   \<and> build_context e options filepath ext ''__filename'' = Some (Val (Str filepath))
   \<and> build_context e options filepath ext ''__dirname'' = Some (Val (Str (path_dirname filepath)))"
  by (simp add: build_context_def)

section \<open>Precedence of names\<close>

lemma build_context_other:
  "k \<notin> engine_names \<Longrightarrow>
   build_context e options filepath ext k =
     (case options k of Some v \<Rightarrow> Some (Val v) | None \<Rightarrow> map_option Val (always_inject e k))"
  by (auto simp: build_context_def engine_names_def map_add_def split: option.splits)

text \<open>
  Claim C7. A name that is not one of the engine's own is looked up in the caller's
  options first and in the injected globals otherwise, so options override injected
  globals. A nested \<^verbatim>\<open>include(child, overrides)\<close> renders the child with the current
  options merged with the overrides, the overrides winning: from a parent called with
  \<^verbatim>\<open>{x: 0, y: 2}\<close>, \<^verbatim>\<open>include("child", {x: 1})\<close> gives the child \<^verbatim>\<open>x = 1\<close> and
  \<^verbatim>\<open>y = 2\<close>.
\<close>

theorem context_precedence:
  "(k \<notin> engine_names \<longrightarrow>
      build_context e options filepath ext k =
        (case options k of Some v \<Rightarrow> Some (Val v) | None \<Rightarrow> map_option Val (always_inject e k)))
   \<and> (eval_overrides e (bindings c) locals include_options = Inr m \<longrightarrow>
        eval e inc c (Call_include child include_options) locals s
          = awaited (inc child (options_of c ++ m) s) Str locals
        \<and> (\<forall>j. (options_of c ++ m) j = (case m j of Some v \<Rightarrow> Some v | None \<Rightarrow> options_of c j)))"
  by (auto simp: build_context_other map_add_def split: option.splits)

theorem context_precedence_witness:
  "''x'' \<notin> engine_names \<and> ''y'' \<notin> engine_names
   \<and> eval_overrides demo_env (bindings parent_call) Map.empty [(''x'', Lit (Num 1))] = Inr [''x'' \<mapsto> Num 1]
   \<and> eval demo_env (include_template 0 demo_env) parent_call (Call_include ''child'' [(''x'', Lit (Num 1))]) Map.empty demo_state
       = awaited (include_template 0 demo_env ''child'' (parent_options ++ [''x'' \<mapsto> Num 1]) demo_state) Str Map.empty
   \<and> build_context demo_env (parent_options ++ [''x'' \<mapsto> Num 1]) ''/srv/views/child.template''
        (Str ''template'') ''x'' = Some (Val (Num 1))
   \<and> build_context demo_env (parent_options ++ [''x'' \<mapsto> Num 1]) ''/srv/views/child.template''
        (Str ''template'') ''y'' = Some (Val (Num 2))
   \<and> map_option fst (include_template 2 demo_env ''parent'' parent_options demo_state)
       = Some (Inr (wrapper_margin @ wrapper_margin @ ''1,2'' @ wrapper_margin @ wrapper_margin))"
proof -
  have run: "map_option fst (include_template 2 demo_env ''parent'' parent_options demo_state)
       = Some (Inr (wrapper_margin @ wrapper_margin @ ''1,2'' @ wrapper_margin @ wrapper_margin))"
    by code_simp
  have n: "''x'' \<notin> engine_names" "''y'' \<notin> engine_names"
    by (simp_all add: engine_names_def)
  have ov: "eval_overrides demo_env (bindings parent_call) Map.empty [(''x'', Lit (Num 1))]
              = Inr [''x'' \<mapsto> Num 1]"
    by simp
  have o: "options_of parent_call = parent_options" by (simp add: parent_call_def)
  show ?thesis
    using context_precedence[of "''x''" demo_env "parent_options ++ [''x'' \<mapsto> Num 1]"
            "''/srv/views/child.template''" "Str ''template''" parent_call Map.empty
            "[(''x'', Lit (Num 1))]" "[''x'' \<mapsto> Num 1]" "include_template 0 demo_env" "''child''" demo_state]
          context_precedence[of "''y''" demo_env "parent_options ++ [''x'' \<mapsto> Num 1]"
            "''/srv/views/child.template''" "Str ''template''" parent_call Map.empty
            "[(''x'', Lit (Num 1))]" "[''x'' \<mapsto> Num 1]" "include_template 0 demo_env" "''child''" demo_state]
          n ov o run
    by (simp add: parent_options_def)
qed

section \<open>The local store\<close>



section \<open>The error normalizer\<close>











section \<open>The cache and reload protocol\<close>

lemma stale_iff:
  "stale s p f \<longleftrightarrow> (file_cache s p = None \<or> (\<exists>c. file_cache s p = Some c \<and> mtime c \<noteq> f_mtime f))"
  by (auto simp: stale_def split: option.splits)

lemma held_restore: "p \<notin> H \<Longrightarrow> insert p H - {p} = H"
  by auto

lemma load_fresh:
  assumes "fs s p = Some f" and "p \<notin> held s" and "\<not> stale s p f"
  shows "load_template e p s = Some (Inr (), s\<lparr>trace := trace s @ [Lock p, Stat p, Unlock p]\<rparr>)"
  using assms
  by (simp add: load_template_def load_body_def emit_def stale_def held_restore Let_def)

lemma load_unreadable:
  assumes "fs s p = Some f" and "p \<notin> held s" and "stale s p f" and "f_data f = None"
  shows "\<exists>err. load_template e p s =
           Some (Inl err, s\<lparr>trace := trace s @ [Lock p, Stat p, ReadFile p, Unlock p]\<rparr>)
         \<and> kind err = IOError"
  using assms
  by (simp add: load_template_def load_body_def emit_def stale_def held_restore Let_def mk_error_def)

lemma load_malformed:
  assumes "fs s p = Some f" and "p \<notin> held s" and "stale s p f" and "f_data f = Some Malformed"
  shows "\<exists>err. load_template e p s =
           Some (Inl err, s\<lparr>file_cache := (file_cache s)(p := None),
                          trace := trace s @ [Lock p, Stat p, ReadFile p, Compile p, Unlock p]\<rparr>)
         \<and> kind err = CompileError"
  using assms
  by (simp add: load_template_def load_body_def emit_def stale_def held_restore Let_def mk_error_def)

lemma load_compiled:
  assumes "fs s p = Some f" and "p \<notin> held s" and "stale s p f"
      and "f_data f = Some (Template frags)"
  shows "\<exists>r msg. load_template e p s =
           Some (r, s\<lparr>file_cache := (file_cache s)(p \<mapsto>
                          \<lparr> mtime = f_mtime f,
                            script = \<lparr> body = frags, filename = p, lineOffset = - 2 \<rparr> \<rparr>),
                        trace := trace s @ [Lock p, Stat p, ReadFile p, Compile p, LogMsg msg, Unlock p]\<rparr>)"
  using assms
  by (auto simp: load_template_def load_body_def emit_def stale_def held_restore Let_def
        call_logger_def split: sum.splits)


lemma load_compiled_ok:
  assumes "fs s p = Some f" and "p \<notin> held s" and "stale s p f"
      and "f_data f = Some (Template frags)" and "load_template e p s = Some (Inr u, s')"
  shows "file_cache s' p = Some \<lparr> mtime = f_mtime f,
            script = \<lparr> body = frags, filename = p, lineOffset = - 2 \<rparr> \<rparr>"
  using load_compiled[OF assms(1-4), of e] assms(5) by auto

lemma load_first:
  assumes "fs s p = Some f" and "p \<notin> held s" and "file_cache s p = None"
      and "f_data f = Some (Template frags)"
      and "logger e (Str (''Loaded template '' @ p)) = Inr w"
  shows "load_template e p s =
           Some (Inr (), s\<lparr>file_cache := (file_cache s)(p \<mapsto>
                          \<lparr> mtime = f_mtime f,
                            script = \<lparr> body = frags, filename = p, lineOffset = - 2 \<rparr> \<rparr>),
                        trace := trace s @ [Lock p, Stat p, ReadFile p, Compile p,
                                   LogMsg (Str (''Loaded template '' @ p)), Unlock p]\<rparr>)"
  using assms
  by (simp add: load_template_def load_body_def emit_def stale_def held_restore Let_def
        call_logger_def)

lemma load_missing:
  assumes "fs s p = None" and "p \<notin> held s"
  shows "\<exists>err. load_template e p s =
           Some (Inl err, s\<lparr>trace := trace s @ [Lock p, Stat p, Unlock p]\<rparr>)
         \<and> kind err = IOError"
  using assms
  by (simp add: load_template_def load_body_def emit_def held_restore Let_def mk_error_def)

lemma new_events_append: "trace s' = trace s @ evs \<Longrightarrow> new_events s s' = evs"
  by (simp add: new_events_def)

text \<open>
  Claim C1, as the code has it. When \<^verbatim>\<open>stat\<close> succeeds, \<^verbatim>\<open>load_template\<close> takes the
  recompile branch exactly when the cache has no entry for the path or the entry's
  modification time differs from the file's: it reads the file and, when the read
  succeeds, drops the entry and calls the compiler once, storing
  \<^verbatim>\<open>{mtime, script}\<close> when the text compiles and leaving no entry when it does not.
  Otherwise it returns with the cache unchanged, having neither read nor compiled. Once
  a load has succeeded, a load of the same path at the same modification time compiles
  nothing, whatever the file now holds.
\<close>

theorem load_template_recompiles_when_stale:
  assumes "fs s p = Some f" and "p \<notin> held s"
  shows "\<exists>r s'. load_template e p s = Some (r, s') \<and>
     (if file_cache s p = None \<or> (\<exists>c. file_cache s p = Some c \<and> mtime c \<noteq> f_mtime f)
      then ReadFile p \<in> set (new_events s s')
           \<and> (f_data f = None \<longrightarrow>
                 file_cache s' = file_cache s \<and> compile_count p (new_events s s') = 0)
           \<and> (f_data f \<noteq> None \<longrightarrow> compile_count p (new_events s s') = 1)
           \<and> (\<forall>frags. f_data f = Some (Template frags) \<longrightarrow>
                 file_cache s' = (file_cache s)(p \<mapsto>
                     \<lparr> mtime = f_mtime f,
                       script = \<lparr> body = frags, filename = p, lineOffset = - 2 \<rparr> \<rparr>))
           \<and> (f_data f = Some Malformed \<longrightarrow>
                 file_cache s' = (file_cache s)(p := None) \<and> (\<exists>err. r = Inl err))
      else r = Inr () \<and> s' = s\<lparr>trace := trace s @ [Lock p, Stat p, Unlock p]\<rparr>)
     \<and> (r = Inr () \<longrightarrow>
          (\<forall>s1 f1. file_cache s1 = file_cache s' \<and> fs s1 p = Some f1 \<and> f_mtime f1 = f_mtime f
                    \<and> p \<notin> held s1 \<longrightarrow>
             load_template e p s1
               = Some (Inr (), s1\<lparr>trace := trace s1 @ [Lock p, Stat p, Unlock p]\<rparr>)))"
proof -
  have again: "load_template e p s1
                 = Some (Inr (), s1\<lparr>trace := trace s1 @ [Lock p, Stat p, Unlock p]\<rparr>)"
    if "file_cache s1 p = Some c" "mtime c = f_mtime f" "fs s1 p = Some f1"
       "f_mtime f1 = f_mtime f" "p \<notin> held s1" for s1 f1 c
    using that load_fresh[of s1 p f1 e] by (simp add: stale_def)
  show ?thesis
  proof (cases "stale s p f")
    case False
    then obtain c where c: "file_cache s p = Some c" "mtime c = f_mtime f"
      by (auto simp: stale_def split: option.splits)
    have l: "load_template e p s = Some (Inr (), s\<lparr>trace := trace s @ [Lock p, Stat p, Unlock p]\<rparr>)"
      using load_fresh[OF assms False] .
    show ?thesis
      using l c again[of _ c] by (auto simp: stale_iff)
  next
    case True
    note st = True
    then have cond: "file_cache s p = None \<or> (\<exists>c. file_cache s p = Some c \<and> mtime c \<noteq> f_mtime f)"
      by (simp add: stale_iff)
    show ?thesis
    proof (cases "f_data f")
      case None
      from load_unreadable[OF assms st None, of e] obtain err where
        l: "load_template e p s
              = Some (Inl err, s\<lparr>trace := trace s @ [Lock p, Stat p, ReadFile p, Unlock p]\<rparr>)"
        by blast
      have ne: "new_events s (s\<lparr>trace := trace s @ [Lock p, Stat p, ReadFile p, Unlock p]\<rparr>)
                  = [Lock p, Stat p, ReadFile p, Unlock p]"
        by (simp add: new_events_append)
      show ?thesis using l cond None by (simp add: ne compile_count_def)
    next
      case (Some content)
      show ?thesis
      proof (cases content)
        case Malformed
        from load_malformed[OF assms st, of e] Some Malformed obtain err where
          l: "load_template e p s
                = Some (Inl err, s\<lparr>file_cache := (file_cache s)(p := None),
                     trace := trace s @ [Lock p, Stat p, ReadFile p, Compile p, Unlock p]\<rparr>)"
          by blast
        have ne: "new_events s (s\<lparr>file_cache := (file_cache s)(p := None),
                     trace := trace s @ [Lock p, Stat p, ReadFile p, Compile p, Unlock p]\<rparr>)
                  = [Lock p, Stat p, ReadFile p, Compile p, Unlock p]"
          by (simp add: new_events_append)
        show ?thesis using l cond Some Malformed by (simp add: ne compile_count_def)
      next
        case (Template frags)
        from load_compiled[OF assms st, of frags e] Some Template obtain r msg where
          l: "load_template e p s
                = Some (r, s\<lparr>file_cache := (file_cache s)(p \<mapsto>
                          \<lparr> mtime = f_mtime f,
                            script = \<lparr> body = frags, filename = p, lineOffset = - 2 \<rparr> \<rparr>),
                        trace := trace s @ [Lock p, Stat p, ReadFile p, Compile p, LogMsg msg, Unlock p]\<rparr>)"
          by blast
        have ne: "new_events s (s\<lparr>file_cache := (file_cache s)(p \<mapsto>
                          \<lparr> mtime = f_mtime f,
                            script = \<lparr> body = frags, filename = p, lineOffset = - 2 \<rparr> \<rparr>),
                        trace := trace s @ [Lock p, Stat p, ReadFile p, Compile p, LogMsg msg, Unlock p]\<rparr>)
                  = [Lock p, Stat p, ReadFile p, Compile p, LogMsg msg, Unlock p]"
          by (simp add: new_events_append)
        have ag: "\<forall>s1 f1. file_cache s1 = (file_cache s)(p \<mapsto>
                          \<lparr> mtime = f_mtime f,
                            script = \<lparr> body = frags, filename = p, lineOffset = - 2 \<rparr> \<rparr>)
                    \<and> fs s1 p = Some f1 \<and> f_mtime f1 = f_mtime f \<and> p \<notin> held s1 \<longrightarrow>
             load_template e p s1
               = Some (Inr (), s1\<lparr>trace := trace s1 @ [Lock p, Stat p, Unlock p]\<rparr>)"
          using again by simp
        show ?thesis using l cond Some Template ag by (simp add: ne compile_count_def)
      qed
    qed
  qed
qed


theorem load_template_recompiles_when_stale_witness:
  "fs demo_state ''/srv/views/child.template''
     = Some \<lparr> f_mtime = 5,
              f_data = Some (Template [Subst (Atom (Var ''x'')), Text '','',
                         Subst (Atom (Var ''y''))]) \<rparr>
   \<and> ''/srv/views/child.template'' \<notin> held demo_state
   \<and> file_cache demo_state ''/srv/views/child.template'' = None
   \<and> (\<exists>s'. load_template demo_env ''/srv/views/child.template'' demo_state = Some (Inr (), s')
         \<and> ReadFile ''/srv/views/child.template'' \<in> set (new_events demo_state s')
         \<and> compile_count ''/srv/views/child.template'' (new_events demo_state s') = 1
         \<and> file_cache s' ''/srv/views/child.template''
             = Some \<lparr> mtime = 5,
                      script = \<lparr> body = [Subst (Atom (Var ''x'')), Text '','',
                                        Subst (Atom (Var ''y''))],
                                 filename = ''/srv/views/child.template'',
                                 lineOffset = - 2 \<rparr> \<rparr>
         \<and> load_template demo_env ''/srv/views/child.template'' s'
             = Some (Inr (), s'\<lparr>trace := trace s' @ [Lock ''/srv/views/child.template'',
                       Stat ''/srv/views/child.template'', Unlock ''/srv/views/child.template'']\<rparr>))"
proof -
  let ?p = "''/srv/views/child.template''"
  let ?frags = "[Subst (Atom (Var ''x'')), Text '','', Subst (Atom (Var ''y''))]"
  let ?f = "\<lparr> f_mtime = 5, f_data = Some (Template ?frags) \<rparr>"
  have f: "fs demo_state ?p = Some ?f"
    by (simp add: demo_state_def demo_files_def)
  have h: "?p \<notin> held demo_state"
    by (simp add: demo_state_def)
  have c: "file_cache demo_state ?p = None"
    by (simp add: demo_state_def)
  have lg: "logger demo_env (Str (''Loaded template '' @ ?p)) = Inr Undefined"
    by (simp add: demo_env_def engine_def)
  from load_first[OF f h c _ lg, of ?frags] obtain s0 where
    l: "load_template demo_env ?p demo_state = Some (Inr (), s0)"
    and fs0: "fs s0 = fs demo_state" and h0: "held s0 = held demo_state"
    by simp
  from load_template_recompiles_when_stale[OF f h, of demo_env] obtain r s' where
    t: "load_template demo_env ?p demo_state = Some (r, s')"
       "ReadFile ?p \<in> set (new_events demo_state s')"
       "compile_count ?p (new_events demo_state s') = 1"
       "file_cache s' = (file_cache demo_state)(?p \<mapsto>
           \<lparr> mtime = 5, script = \<lparr> body = ?frags, filename = ?p, lineOffset = - 2 \<rparr> \<rparr>)"
       "r = Inr () \<longrightarrow>
          (\<forall>s1 f1. file_cache s1 = file_cache s' \<and> fs s1 ?p = Some f1 \<and> f_mtime f1 = f_mtime ?f
                    \<and> ?p \<notin> held s1 \<longrightarrow>
             load_template demo_env ?p s1
               = Some (Inr (), s1\<lparr>trace := trace s1 @ [Lock ?p, Stat ?p, Unlock ?p]\<rparr>))"
    using c by (simp only: c simp_thms if_True fs_file.simps option.simps) auto
  from t(1) l have eq: "r = Inr ()" "s' = s0" by simp_all
  have again: "load_template demo_env ?p s'
                 = Some (Inr (), s'\<lparr>trace := trace s' @ [Lock ?p, Stat ?p, Unlock ?p]\<rparr>)"
    using t(5) eq f h fs0 h0 by simp
  have "file_cache s' ?p
          = Some \<lparr> mtime = 5, script = \<lparr> body = ?frags, filename = ?p, lineOffset = - 2 \<rparr> \<rparr>"
    using t(4) by simp
  then show ?thesis using f h c t(1-3) eq(1) again by blast
qed

text \<open>
  The claim as stated also says that two consecutive renders of an unchanged template
  compile at most once. A template that does not compile is compiled by each of them:
  the entry is deleted before the compiler is called, so the second render finds no
  entry. The file system is the same throughout.
\<close>

theorem two_renders_compile_twice_counterexample:
  "map_option (compile_count ''/srv/views/bad.template'' \<circ> trace)
     (render_twice 1 demo_env ''bad'' Map.empty demo_state) = Some 2"
  by code_simp

section \<open>The per-path lock\<close>

lemma load_body_held: "load_body e p s = (r, s') \<Longrightarrow> held s' = held s"
  by (auto simp: load_body_def emit_def call_logger_def Let_def
        split: option.splits if_splits source.splits sum.splits prod.splits)

lemma load_template_returns:
  assumes "p \<notin> held s"
  shows "\<exists>r s'. load_template e p s = Some (r, s') \<and> held s' = held s
           \<and> last (trace s') = Unlock p"
proof -
  obtain r s1 where b: "load_body e p (emit (Lock p) (s\<lparr>held := insert p (held s)\<rparr>)) = (r, s1)"
    by (cases "load_body e p (emit (Lock p) (s\<lparr>held := insert p (held s)\<rparr>))") auto
  have "held s1 = insert p (held s)"
    using load_body_held[OF b] by (simp add: emit_def)
  then show ?thesis
    using assms b by (simp add: load_template_def emit_def held_restore)
qed

lemma compile_error_clears:
  assumes "load_template e p s = Some (Inl err, s')" and "kind err = CompileError"
  shows "file_cache s' p = None"
  using assms
  by (auto simp: load_template_def load_body_def emit_def call_logger_def Let_def mk_error_def
        split: option.splits if_splits source.splits sum.splits prod.splits)

text \<open>
  Claim C6. A call of \<^verbatim>\<open>load_template\<close> that acquires the path's lock returns with
  the lock released, whatever happened in between: the set of held locks is what it was
  and the last event is the release. That covers a failing \<^verbatim>\<open>stat\<close>, a failing read
  and a failing compilation. The next call for the path therefore acquires the lock and
  returns too, and after a failed compilation it finds no entry, so it compiles again.
\<close>

theorem lock_released_on_every_exit:
  assumes "filepath \<notin> held s"
  shows "\<exists>r s'. load_template e filepath s = Some (r, s')
           \<and> held s' = held s \<and> last (trace s') = Unlock filepath
           \<and> (fs s filepath = None \<longrightarrow> (\<exists>err. r = Inl err \<and> kind err = IOError))
           \<and> (\<forall>err. r = Inl err \<and> kind err = CompileError \<longrightarrow> file_cache s' filepath = None)
           \<and> (\<exists>r2 s2. load_template e filepath s' = Some (r2, s2) \<and> held s2 = held s)"
proof -
  from load_template_returns[OF assms, of e] obtain r s' where
    l: "load_template e filepath s = Some (r, s')" "held s' = held s"
       "last (trace s') = Unlock filepath"
    by blast
  have again: "\<exists>r2 s2. load_template e filepath s' = Some (r2, s2) \<and> held s2 = held s"
    using load_template_returns[of filepath s' e] assms l(2) by auto
  have miss: "fs s filepath = None \<longrightarrow> (\<exists>err. r = Inl err \<and> kind err = IOError)"
    using load_missing[OF _ assms, of e] l(1) by auto
  have clr: "\<forall>err. r = Inl err \<and> kind err = CompileError \<longrightarrow> file_cache s' filepath = None"
    using compile_error_clears l(1) by blast
  show ?thesis
    by (rule exI[of _ r], rule exI[of _ s']) (use l again miss clr in auto)
qed


theorem lock_released_on_every_exit_witness:
  "''/srv/views/bad.template'' \<notin> held demo_state
   \<and> (\<exists>r s'. load_template demo_env ''/srv/views/bad.template'' demo_state = Some (r, s')
         \<and> held s' = held demo_state
         \<and> (\<exists>r2 s2. load_template demo_env ''/srv/views/bad.template'' s' = Some (r2, s2)))"
proof -
  have h: "''/srv/views/bad.template'' \<notin> held demo_state"
    by (simp add: demo_state_def)
  show ?thesis
    using lock_released_on_every_exit[OF h, of demo_env] h by blast
qed

section \<open>Objects change by export\_var alone\<close>


















section \<open>Exporting and importing variables\<close>







lemma load_template_objects:
  "load_template e p s = Some (r, s') \<Longrightarrow> objects s' = objects s \<and> next_ref s' = next_ref s"
  by (auto simp: load_template_def load_body_def emit_def call_logger_def Let_def
        split: option.splits if_splits source.splits sum.splits prod.splits)






section \<open>The timeout\<close>




end
